theory Spec2Isabelle
  imports Complex_Main
begin

section \<open>Mortgage refinance tipping-point calculator\<close>

text \<open>
  A shallow embedding of \<^verbatim>\<open>mortgageRefinanceTippingPointCalcutaor.py\<close>.

  Numbers: the command-line integers (\<^verbatim>\<open>--term\<close>, \<^verbatim>\<open>--paid\<close>, \<^verbatim>\<open>--sell-year\<close>,
  \<^verbatim>\<open>--sell-month\<close>) are Python's unbounded integers, modelled as \<open>int\<close>. The
  floating-point quantities (amounts, rates, payments) are modelled as exact \<open>real\<close>
  numbers: every operation the program applies to them (\<open>+\<close>, \<open>-\<close>, \<open>*\<close>, \<open>/\<close>, integer
  powers, comparisons, rounding to three decimals) is taken without rounding error.
  What is proved below is therefore a statement about the program's formulas and control
  flow in exact arithmetic, not about the last bits of an IEEE-754 double. The one place
  where rounding decides whether the program raises, the divisor of
  \<^verbatim>\<open>calculate_pmt\<close>, is modelled a second time on doubles
  (\<open>calculate_pmt_double\<close>).

  Errors are values: every function that can raise returns \<open>error + 'a\<close>.
\<close>

subsection \<open>Errors\<close>

datatype error =
    ZeroDivisionError
  | OverflowError
  | ValueError_date
  | ValueError_horizon int

subsection \<open>Utility functions\<close>

text \<open>
  \<^verbatim>\<open>calculate_pmt(principal, annual_rate, months)\<close>. Python raises
  \<^verbatim>\<open>ZeroDivisionError\<close> where a float is divided by zero; \<open>x ** n\<close> with an integer
  \<open>n\<close> (of either sign) is \<open>power_int\<close>. This is the expression in exact arithmetic,
  where the divisor of a positive rate vanishes only for a term of zero; what rounding
  adds to the error path is in \<open>calculate_pmt_double\<close> below.
\<close>

definition calculate_pmt :: "real \<Rightarrow> real \<Rightarrow> int \<Rightarrow> error + real" where
  "calculate_pmt princ annual_rate months =
     (if annual_rate \<le> 0 then
        (if months = 0 then Inl ZeroDivisionError
         else Inr (princ / real_of_int months))
      else
        (let r = annual_rate / 100 / 12 in
         if power_int (1 + r) months - 1 = 0 then Inl ZeroDivisionError
         else Inr (princ * (r * power_int (1 + r) months)
                     / (power_int (1 + r) months - 1))))"

text \<open>
  The body of the \<^verbatim>\<open>for _ in range(1, payments_made + 1)\<close> loop of
  \<^verbatim>\<open>get_loan_status\<close>, run \<open>n\<close> times on the balance.
\<close>

fun pay_down :: "real \<Rightarrow> real \<Rightarrow> nat \<Rightarrow> real \<Rightarrow> real" where
  "pay_down r pmt 0 balance = balance"
| "pay_down r pmt (Suc n) balance =
     (let interest = balance * r;
          principal_pay = pmt - interest
      in pay_down r pmt n (balance - principal_pay))"

text \<open>
  \<^verbatim>\<open>get_loan_status\<close> returns \<open>(balance, pmt, remaining_interest)\<close>. The range
  \<open>range(1, payments_made + 1)\<close> has \<open>nat payments_made\<close> elements (none when
  \<open>payments_made \<le> 0\<close>).
\<close>

definition get_loan_status ::
  "real \<Rightarrow> real \<Rightarrow> int \<Rightarrow> int \<Rightarrow> error + (real \<times> real \<times> real)" where
  "get_loan_status princ annual_rate total_months payments_made =
     (let r = annual_rate / 100 / 12 in
      case calculate_pmt princ annual_rate total_months of
        Inl e \<Rightarrow> Inl e
      | Inr pmt \<Rightarrow>
          (let balance = pay_down r pmt (nat payments_made) princ;
               remaining_interest =
                 (pmt * real_of_int (total_months - payments_made)) - balance
           in Inr (balance, pmt, remaining_interest)))"

subsection \<open>Calendar months\<close>

text \<open>
  The program only ever builds first-of-month dates, so a date is its year and month.
  \<^verbatim>\<open>datetime(year, month, 1)\<close> raises \<^verbatim>\<open>OverflowError\<close> for an argument that does
  not fit a C \<open>int\<close>, and \<^verbatim>\<open>ValueError\<close> for a year outside \<open>1..9999\<close> or a month
  outside \<open>1..12\<close>.
\<close>

type_synonym month_date = "int \<times> int"

definition c_int_ok :: "int \<Rightarrow> bool" where
  "c_int_ok x = (- 2147483648 \<le> x \<and> x \<le> 2147483647)"

definition new_datetime :: "int \<Rightarrow> int \<Rightarrow> error + month_date" where
  "new_datetime year month =
     (if \<not> (c_int_ok year \<and> c_int_ok month) then Inl OverflowError
      else if year < 1 \<or> year > 9999 then Inl ValueError_date
      else if month < 1 \<or> month > 12 then Inl ValueError_date
      else Inr (year, month))"

text \<open>
  \<^verbatim>\<open>relativedelta(months=m)\<close> normalises itself to \<open>(years, months)\<close> with
  \<open>\<bar>months\<bar> \<le> 11\<close> and both of the sign of \<open>m\<close> (dateutil's \<^verbatim>\<open>_fix\<close>).
\<close>

definition relativedelta_months :: "int \<Rightarrow> int \<times> int" where
  "relativedelta_months m =
     (if \<bar>m\<bar> > 11 then
        (let s = (if m < 0 then - 1 else 1);
             d = (m * s) div 12;
             md = (m * s) mod 12
         in (d * s, md * s))
      else (0, m))"

text \<open>
  \<^verbatim>\<open>dt - relativedelta\<close> is \<^verbatim>\<open>relativedelta.__rsub__\<close>: the delta is negated and
  added. The day is 1 throughout, so the clamp to the month's length changes nothing;
  the final \<^verbatim>\<open>replace\<close> checks the year as the constructor does.
\<close>

definition datetime_minus_months :: "month_date \<Rightarrow> int \<Rightarrow> error + month_date" where
  "datetime_minus_months dt m =
     (let (ys, ms) = relativedelta_months m;
          years = - ys;
          months = - ms;
          year = fst dt + years;
          month = snd dt;
          (year, month) =
            (if months \<noteq> 0 then
               (let month = month + months in
                if month > 12 then (year + 1, month - 12)
                else if month < 1 then (year - 1, month + 12)
                else (year, month))
             else (year, month))
      in new_datetime year month)"

text \<open>
  \<^verbatim>\<open>strftime('%b %Y')\<close> in the C locale. Years are in \<open>1..9999\<close> here; they are
  printed with four digits (below 1000 the padding depends on the platform's C library).
\<close>

definition month_abbr :: "int \<Rightarrow> string" where
  "month_abbr m =
     [''Jan'', ''Feb'', ''Mar'', ''Apr'', ''May'', ''Jun'',
      ''Jul'', ''Aug'', ''Sep'', ''Oct'', ''Nov'', ''Dec''] ! nat (m - 1)"

definition digit_char :: "int \<Rightarrow> char" where
  "digit_char d = ''0123456789'' ! nat d"

definition year4 :: "int \<Rightarrow> string" where
  "year4 y = [digit_char (y div 1000 mod 10), digit_char (y div 100 mod 10),
              digit_char (y div 10 mod 10), digit_char (y mod 10)]"

definition strftime_b_Y :: "month_date \<Rightarrow> string" where
  "strftime_b_Y dt = month_abbr (snd dt) @ '' '' @ year4 (fst dt)"

definition CURRENT_YEAR :: int where "CURRENT_YEAR = 2025"
definition CURRENT_MONTH :: int where "CURRENT_MONTH = 11"

text \<open>
  \<^verbatim>\<open>calculate_total_payments_until_sale\<close>. The \<^verbatim>\<open>ValueError\<close> of line 53 carries
  the month count it reports.
\<close>

definition calculate_total_payments_until_sale ::
  "int \<Rightarrow> int \<Rightarrow> int \<Rightarrow> error + (int \<times> string)" where
  "calculate_total_payments_until_sale payments_made sell_year sell_month =
     (case new_datetime CURRENT_YEAR CURRENT_MONTH of
        Inl e \<Rightarrow> Inl e
      | Inr cur \<Rightarrow>
     (case datetime_minus_months cur (payments_made - 1) of
        Inl e \<Rightarrow> Inl e
      | Inr first_payment_date \<Rightarrow>
     (case new_datetime sell_year sell_month of
        Inl e \<Rightarrow> Inl e
      | Inr sale_date \<Rightarrow>
          (let total_months =
                 12 * (fst sale_date - fst first_payment_date)
                 + (snd sale_date - snd first_payment_date) + 1
           in if total_months < payments_made then Inl (ValueError_horizon total_months)
              else Inr (total_months, strftime_b_Y first_payment_date)))))"

subsection \<open>The analysis\<close>



text \<open>
  Python's \<^verbatim>\<open>round(x, ndigits)\<close>: to the nearest multiple of \<open>10 ^ - ndigits\<close>, a tie
  going to the even one.
\<close>

definition py_round :: "real \<Rightarrow> nat \<Rightarrow> real" where
  "py_round x ndigits =
     (let y = x * 10 ^ ndigits;
          f = \<lfloor>y\<rfloor>;
          d = y - real_of_int f;
          q = (if d < 1 / 2 then f
               else if d > 1 / 2 then f + 1
               else if even f then f else f + 1)
      in real_of_int q / 10 ^ ndigits)"

record args =
  amount :: real
  rate :: real
  "term" :: int
  paid :: int
  sell_year :: int
  sell_month :: int
  costs_pct :: real

text \<open>The values that \<^verbatim>\<open>run_analysis\<close> fixes before its loops (lines 81 to 96).\<close>

record benchmark =
  pmt_orig :: real
  closing_costs :: real
  cost_refi_loan_amt :: real
  refi_payments_until_sale :: int
  total_cost_orig_at_sale :: real
  original_term_months :: int
  payments_made :: int

text \<open>The two latches of the search: \<open>None\<close> until a candidate is recorded.\<close>

record tipping =
  tipping_rate_sale :: "real option"
  tipping_rate_lifetime :: "real option"

text \<open>The conditions of lines 110 and 120, without their \<^verbatim>\<open>is None\<close> conjunct.\<close>

definition lifetime_cheaper :: "benchmark \<Rightarrow> real \<Rightarrow> bool" where
  "lifetime_cheaper b pmt_refi =
     (let total_payments_orig_remaining =
            pmt_orig b * real_of_int (original_term_months b - payments_made b);
          total_payments_refi_lifetime = pmt_refi * 360
      in total_payments_refi_lifetime < total_payments_orig_remaining)"

definition sale_cheaper :: "benchmark \<Rightarrow> real \<Rightarrow> real \<Rightarrow> bool" where
  "sale_cheaper b pmt_refi rem_principal_refi_sale =
     (let total_payments_refi_at_sale =
            (pmt_orig b * real_of_int (payments_made b))
            + (pmt_refi * real_of_int (refi_payments_until_sale b));
          total_cost_refi_at_sale = total_payments_refi_at_sale + rem_principal_refi_sale
      in total_cost_refi_at_sale < total_cost_orig_at_sale b)"

text \<open>One pass of the body of the search loop (lines 104 to 121).\<close>

definition search_step :: "benchmark \<Rightarrow> real \<Rightarrow> tipping \<Rightarrow> error + tipping" where
  "search_step b r_new t =
     (case calculate_pmt (cost_refi_loan_amt b) r_new 360 of
        Inl e \<Rightarrow> Inl e
      | Inr pmt_refi \<Rightarrow>
          (let t1 = (if lifetime_cheaper b pmt_refi \<and> tipping_rate_lifetime t = None
                     then t\<lparr>tipping_rate_lifetime := Some r_new\<rparr> else t)
           in case get_loan_status (cost_refi_loan_amt b) r_new 360
                     (refi_payments_until_sale b) of
                Inl e \<Rightarrow> Inl e
              | Inr (rem_principal_refi_sale, _, _) \<Rightarrow>
                  Inr (if sale_cheaper b pmt_refi rem_principal_refi_sale
                          \<and> tipping_rate_sale t1 = None
                       then t1\<lparr>tipping_rate_sale := Some r_new\<rparr> else t1)))"



text \<open>
  Lines 128 to 136. \<^verbatim>\<open>sorted(list(set(xs)))\<close> is \<open>sort (remdups xs)\<close>: the order in
  which a set is listed does not survive the sort. \<^verbatim>\<open>sorted(xs, reverse=True)\<close> is the
  stable sort on the negated key.
\<close>

definition table_rates :: "real \<Rightarrow> real \<Rightarrow> real \<Rightarrow> real list" where
  "table_rates tip_sale tip_lifetime original_rate =
     (let rates1 = sort (remdups
            [py_round (tip_sale + 0.075) 3,
             py_round tip_sale 3,
             py_round (tip_sale - 0.25) 3,
             py_round tip_lifetime 3,
             py_round (tip_lifetime - 0.25) 3]);
          rates2 = filter (\<lambda>r. r < original_rate) rates1
      in sort_key uminus (remdups rates2))"

record row =
  row_rate :: real
  monthly_savings :: real
  savings_at_sale :: real
  savings_lifetime :: real

text \<open>The body of the table loop (lines 141 to 159).\<close>

definition table_row :: "benchmark \<Rightarrow> real \<Rightarrow> error + row" where
  "table_row b r_new =
     (case calculate_pmt (cost_refi_loan_amt b) r_new 360 of
        Inl e \<Rightarrow> Inl e
      | Inr pmt_refi \<Rightarrow>
     (case get_loan_status (cost_refi_loan_amt b) r_new 360 (refi_payments_until_sale b) of
        Inl e \<Rightarrow> Inl e
      | Inr (rem_principal_refi_sale, _, _) \<Rightarrow>
          (let total_payments_refi_at_sale =
                 (pmt_orig b * real_of_int (payments_made b))
                 + (pmt_refi * real_of_int (refi_payments_until_sale b));
               total_payments_orig_remaining =
                 pmt_orig b * real_of_int (original_term_months b - payments_made b);
               total_payments_refi_lifetime = pmt_refi * 360
           in Inr \<lparr>row_rate = r_new,
                   monthly_savings = pmt_orig b - pmt_refi,
                   savings_at_sale = total_cost_orig_at_sale b
                        - (total_payments_refi_at_sale + rem_principal_refi_sale),
                   savings_lifetime =
                        total_payments_orig_remaining - total_payments_refi_lifetime\<rparr>)))"

fun table_loop :: "benchmark \<Rightarrow> real list \<Rightarrow> error + row list" where
  "table_loop b [] = Inr []"
| "table_loop b (r_new # rs) =
     (case table_row b r_new of
        Inl e \<Rightarrow> Inl e
      | Inr rw \<Rightarrow>
          (case table_loop b rs of Inl e \<Rightarrow> Inl e | Inr rws \<Rightarrow> Inr (rw # rws)))"

text \<open>The status printed after a savings figure (lines 191 and 192).\<close>

definition status_label :: "real \<Rightarrow> string" where
  "status_label savings =
     (if savings < 0.01 \<and> \<bar>savings\<bar> > 0.01 then '' (LOSS)'' else '' (GAIN)'')"

text \<open>Lines 81 to 96 of \<^verbatim>\<open>run_analysis\<close>.\<close>

definition make_benchmark :: "args \<Rightarrow> int \<Rightarrow> error + benchmark" where
  "make_benchmark a months_until_sale =
     (case get_loan_status (amount a) (rate a) (term a) (paid a) of
        Inl e \<Rightarrow> Inl e
      | Inr (remaining_principal, pmt, remaining_interest_orig) \<Rightarrow>
     (case get_loan_status (amount a) (rate a) (term a) months_until_sale of
        Inl e \<Rightarrow> Inl e
      | Inr (rem_principal_orig_sale, _, _) \<Rightarrow>
          (let costs = remaining_principal * costs_pct a;
               total_payments_orig_at_sale = pmt * real_of_int months_until_sale
           in Inr \<lparr>pmt_orig = pmt,
                   closing_costs = costs,
                   cost_refi_loan_amt = remaining_principal + costs,
                   refi_payments_until_sale = months_until_sale - paid a,
                   total_cost_orig_at_sale =
                     total_payments_orig_at_sale + rem_principal_orig_sale,
                   original_term_months = term a,
                   payments_made = paid a\<rparr>)))"

text \<open>What \<^verbatim>\<open>run_analysis\<close> prints, as data.\<close>

record report =
  months_until_sale :: int
  first_pmt_date_str :: string
  closing_costs_shown :: real
  tipping_sale :: real
  tipping_lifetime :: real
  table_data :: "row list"
  table_status :: "(string \<times> string) list"


subsection \<open>The fixed payment in double precision\<close>

text \<open>
  The exact model above has no error path for a positive rate and a term other than
  zero. The program computes on IEEE-754 doubles, where that path exists; it is modelled
  here for \<^verbatim>\<open>calculate_pmt\<close>.
\<close>

text \<open>The nearest integer, a tie going to the even one.\<close>

definition round_half_even :: "real \<Rightarrow> int" where
  "round_half_even y =
     (let f = \<lfloor>y\<rfloor>;
          d = y - real_of_int f
      in if d < 1 / 2 then f
         else if d > 1 / 2 then f + 1
         else if even f then f else f + 1)"

text \<open>
  The exponent \<open>e\<close> with \<open>2 ^ e \<le> x < 2 ^ (e + 1)\<close> of a positive \<open>x\<close>, found by halving
  or doubling; it stops at \<open>-1022\<close>, below which doubles are subnormal and keep the
  spacing of that exponent, and at \<open>1024\<close>, from which on a value overflows.
\<close>

fun binade_up :: "nat \<Rightarrow> real \<Rightarrow> int \<Rightarrow> int" where
  "binade_up fuel x e =
     (if fuel = 0 \<or> x < 2 then e else binade_up (fuel - 1) (x / 2) (e + 1))"

fun binade_down :: "nat \<Rightarrow> real \<Rightarrow> int \<Rightarrow> int" where
  "binade_down fuel x e =
     (if fuel = 0 \<or> 1 \<le> x then e else binade_down (fuel - 1) (x * 2) (e - 1))"

declare binade_up.simps [simp del]
declare binade_down.simps [simp del]

definition binade :: "real \<Rightarrow> int" where
  "binade x = (if 1 \<le> x then binade_up 1024 x 0 else binade_down 1022 x 0)"

text \<open>
  Rounding to the nearest double, ties to even: 53 significant bits, so the spacing at
  exponent \<open>e\<close> is \<open>2 ^ (e - 52)\<close>. \<open>None\<close> is overflow to an infinity.
\<close>

definition round_double :: "real \<Rightarrow> real option" where
  "round_double x =
     (if x = 0 then Some 0
      else
        (let e = binade \<bar>x\<bar>;
             ulp = power_int 2 (e - 52);
             y = real_of_int (round_half_even (x / ulp)) * ulp
         in if power_int 2 1024 \<le> \<bar>y\<bar> then None else Some y))"

text \<open>
  The value of a float expression: a finite double, or an infinity or NaN. In
  \<^verbatim>\<open>calculate_pmt\<close> a value that is not finite is only ever multiplied by, or divided
  by, a finite double, and stays not finite.
\<close>

datatype fvalue = Finite real | Not_finite

definition fmul :: "fvalue \<Rightarrow> fvalue \<Rightarrow> fvalue" where
  "fmul a b =
     (case (a, b) of
        (Finite x, Finite y) \<Rightarrow>
          (case round_double (x * y) of None \<Rightarrow> Not_finite | Some z \<Rightarrow> Finite z)
      | _ \<Rightarrow> Not_finite)"

text \<open>Python's float division raises \<^verbatim>\<open>ZeroDivisionError\<close> on a zero divisor.\<close>

definition fdiv :: "fvalue \<Rightarrow> real \<Rightarrow> error + fvalue" where
  "fdiv a y =
     (if y = 0 then Inl ZeroDivisionError
      else (case a of
              Finite x \<Rightarrow>
                (case round_double (x / y) of
                   None \<Rightarrow> Inr Not_finite
                 | Some z \<Rightarrow> Inr (Finite z))
            | Not_finite \<Rightarrow> Inr Not_finite))"

text \<open>
  Python's \<^verbatim>\<open>x ** n\<close> on a float raises \<^verbatim>\<open>OverflowError\<close> when the result is out of
  range; the power is taken as correctly rounded. Converting an integer that is out of
  range to a float raises \<^verbatim>\<open>OverflowError\<close> as well.
\<close>

definition fpow :: "real \<Rightarrow> int \<Rightarrow> error + real" where
  "fpow x n =
     (case round_double (power_int x n) of
        None \<Rightarrow> Inl OverflowError
      | Some z \<Rightarrow> Inr z)"

definition float_of_int :: "int \<Rightarrow> error + real" where
  "float_of_int n =
     (case round_double (real_of_int n) of
        None \<Rightarrow> Inl OverflowError
      | Some z \<Rightarrow> Inr z)"

text \<open>
  \<^verbatim>\<open>calculate_pmt\<close> on doubles: the same expression, every operation rounded, for a
  principal and a rate that are finite doubles. The two quotients, the sum \<open>1 + r\<close> and
  the difference \<open>pw - 1\<close> of finite doubles cannot overflow (their \<open>None\<close> branches
  are not reached from doubles); the products can. The power is evaluated before the
  divisor is tested, as the numerator is evaluated first.
\<close>

definition calculate_pmt_double :: "real \<Rightarrow> real \<Rightarrow> int \<Rightarrow> error + fvalue" where
  "calculate_pmt_double princ annual_rate months =
     (if annual_rate \<le> 0 then
        (case float_of_int months of
           Inl e \<Rightarrow> Inl e
         | Inr m \<Rightarrow> fdiv (Finite princ) m)
      else
        (case round_double (annual_rate / 100) of
           None \<Rightarrow> Inr Not_finite
         | Some r100 \<Rightarrow>
        (case round_double (r100 / 12) of
           None \<Rightarrow> Inr Not_finite
         | Some r \<Rightarrow>
        (case round_double (1 + r) of
           None \<Rightarrow> Inr Not_finite
         | Some base \<Rightarrow>
        (case fpow base months of
           Inl e \<Rightarrow> Inl e
         | Inr pw \<Rightarrow>
        (case round_double (pw - 1) of
           None \<Rightarrow> Inr Not_finite
         | Some divisor \<Rightarrow>
             fdiv (fmul (Finite princ) (fmul (Finite r) (Finite pw))) divisor))))))"

subsection \<open>Notions used to state the properties\<close>



text \<open>A latch takes the first rate offered to it while it is still empty.\<close>

definition latch :: "bool \<Rightarrow> real \<Rightarrow> real option \<Rightarrow> real option" where
  "latch ok r cur = (if ok \<and> cur = None then Some r else cur)"



section \<open>Properties\<close>

subsection \<open>Auxiliary facts\<close>

lemma powi_one_iff:
  fixes x :: real
  assumes "1 < x"
  shows "(power_int x n = 1) = (n = 0)"
proof (cases "0 \<le> n")
  case True
  then have e: "power_int x n = x ^ nat n" by (simp add: power_int_def)
  show ?thesis
  proof (cases "n = 0")
    case True
    then show ?thesis by simp
  next
    case False
    with \<open>0 \<le> n\<close> have "0 < nat n" by simp
    then have "1 < x ^ nat n" using assms by (intro one_less_power) auto
    with e False show ?thesis by simp
  qed
next
  case False
  then have e: "power_int x n = inverse (x ^ nat (- n))"
    by (simp add: power_int_def power_inverse)
  from False have "0 < nat (- n)" by simp
  then have "1 < x ^ nat (- n)" using assms by (intro one_less_power) auto
  then have "x ^ nat (- n) \<noteq> 1" by simp
  then have "inverse (x ^ nat (- n)) \<noteq> 1" by simp
  with e False show ?thesis by simp
qed

lemma calculate_pmt_pos_rate:
  assumes "0 < annual_rate" "months \<noteq> 0"
  shows "calculate_pmt p annual_rate months =
           Inr (p * (annual_rate / 100 / 12 * power_int (1 + annual_rate / 100 / 12) months)
                  / (power_int (1 + annual_rate / 100 / 12) months - 1))"
proof -
  have "1 < 1 + annual_rate / 100 / 12" using assms by simp
  then have "power_int (1 + annual_rate / 100 / 12) months \<noteq> 1"
    using assms(2) by (simp add: powi_one_iff)
  with assms(1) show ?thesis by (simp add: calculate_pmt_def Let_def)
qed

lemma calculate_pmt_total:
  assumes "months \<noteq> 0"
  shows "\<exists>x. calculate_pmt p annual_rate months = Inr x"
proof (cases "annual_rate \<le> 0")
  case True
  with assms show ?thesis by (simp add: calculate_pmt_def)
next
  case False
  then show ?thesis using calculate_pmt_pos_rate [of annual_rate months p] assms by simp
qed

lemma get_loan_status_total:
  assumes "months \<noteq> 0"
  shows "\<exists>bal pm ri. get_loan_status p annual_rate months k = Inr (bal, pm, ri)"
proof -
  obtain x where "calculate_pmt p annual_rate months = Inr x"
    using calculate_pmt_total [OF assms] by blast
  then show ?thesis by (simp add: get_loan_status_def Let_def)
qed

lemma get_loan_status_pmt:
  assumes "get_loan_status p annual_rate months k = Inr (bal, pm, ri)"
  shows "calculate_pmt p annual_rate months = Inr pm"
  using assms by (auto simp: get_loan_status_def Let_def split: sum.splits)















lemma table_row_eq:
  "\<exists>rw. table_row b r = Inr rw \<and> row_rate rw = r"
proof -
  obtain pm where pm: "calculate_pmt (cost_refi_loan_amt b) r 360 = Inr pm"
    using calculate_pmt_total [of 360 "cost_refi_loan_amt b" r] by auto
  obtain bal pm' ri where gl:
    "get_loan_status (cost_refi_loan_amt b) r 360 (refi_payments_until_sale b)
       = Inr (bal, pm', ri)"
    using get_loan_status_total [of 360 "cost_refi_loan_amt b" r "refi_payments_until_sale b"]
    by auto
  show ?thesis by (simp add: table_row_def pm gl Let_def)
qed

lemma table_loop_eq:
  "\<exists>rows. table_loop b rs = Inr rows \<and> map row_rate rows = rs"
proof (induction rs)
  case Nil
  show ?case by simp
next
  case (Cons r rs)
  obtain rw where rw: "table_row b r = Inr rw" "row_rate rw = r"
    using table_row_eq by blast
  obtain rows where rows: "table_loop b rs = Inr rows" "map row_rate rows = rs"
    using Cons.IH by blast
  show ?case by (simp add: rw rows)
qed















lemma descending_of_sort_key_uminus:
  fixes xs :: "real list"
  assumes "distinct xs"
  shows "sorted_wrt (>) (sort_key uminus xs)"
proof -
  let ?ys = "sort_key uminus xs"
  have d: "distinct ?ys" using assms by simp
  have "sorted (map uminus ?ys)" by (rule sorted_sort_key)
  then have s: "sorted_wrt (\<lambda>x y. y \<le> x) ?ys" by (simp add: sorted_wrt_map)
  show ?thesis
    unfolding sorted_wrt_iff_nth_less
  proof (intro allI impI)
    fix i j assume ij: "i < j" "j < length ?ys"
    then have "?ys ! j \<le> ?ys ! i" using s by (auto simp: sorted_wrt_iff_nth_less)
    moreover have "?ys ! i \<noteq> ?ys ! j" using d ij by (simp add: nth_eq_iff_index_eq)
    ultimately show "?ys ! j < ?ys ! i" by simp
  qed
qed

lemma py_round_grid: "\<exists>k :: int. py_round x n = real_of_int k / 10 ^ n"
  by (auto simp: py_round_def Let_def)

lemma set_table_rates:
  "set (table_rates t_s t_l orig) =
     {r \<in> {py_round (t_s + 0.075) 3, py_round t_s 3, py_round (t_s - 0.25) 3,
           py_round t_l 3, py_round (t_l - 0.25) 3}. r < orig}"
  by (auto simp: table_rates_def Let_def)

lemma length_table_rates: "length (table_rates t_s t_l orig) \<le> 5"
proof -
  let ?l = "[py_round (t_s + 0.075) 3, py_round t_s 3, py_round (t_s - 0.25) 3,
             py_round t_l 3, py_round (t_l - 0.25) 3]"
  have "length (table_rates t_s t_l orig)
          = length (remdups (filter (\<lambda>r. r < orig) (sort (remdups ?l))))"
    by (simp add: table_rates_def Let_def)
  also have "\<dots> \<le> length (filter (\<lambda>r. r < orig) (sort (remdups ?l)))"
    by (rule length_remdups_leq)
  also have "\<dots> \<le> length (sort (remdups ?l))" by (rule length_filter_le)
  also have "\<dots> = length (remdups ?l)" by simp
  also have "\<dots> \<le> length ?l" by (rule length_remdups_leq)
  also have "\<dots> = 5" by simp
  finally show ?thesis .
qed

lemma table_rates_example:
  "table_rates 6.5 6.25 6.55 = [6.5, 6.25, 6]"
  by (simp add: table_rates_def py_round_def Let_def)

lemma get_loan_status_balance:
  assumes "get_loan_status p r n k = Inr (bal, pm, ri)"
  shows "bal = pay_down (r / 100 / 12) pm (nat k) p \<and> calculate_pmt p r n = Inr pm"
  using assms by (auto simp: get_loan_status_def Let_def split: sum.splits)

lemma two_month_loan_status:
  "get_loan_status 20100 12 2 1 = Inr (10100, 10201, 101)"
  "get_loan_status 20100 12 2 2 = Inr (0, 10201, 0)"
  by (simp_all add: get_loan_status_def calculate_pmt_def power_int_def power2_eq_square
      Let_def eval_nat_numeral)

lemma two_month_benchmark:
  "make_benchmark \<lparr>amount = 20100, rate = 12, term = 2, paid = 1,
                    sell_year = 2025, sell_month = 12, costs_pct = 0.02\<rparr> 2
     = Inr \<lparr>pmt_orig = 10201, closing_costs = 202, cost_refi_loan_amt = 10302,
            refi_payments_until_sale = 1, total_cost_orig_at_sale = 20402,
            original_term_months = 2, payments_made = 1\<rparr>"
  by (simp add: make_benchmark_def two_month_loan_status Let_def)

lemma divmod12:
  fixes a q r :: int
  assumes "a = 12 * q + r" "0 \<le> r" "r < 12"
  shows "a div 12 = q" "a mod 12 = r"
  using assms by (simp_all add: int_div_pos_eq int_mod_pos_eq)

lemma first_payment_month:
  "datetime_minus_months (2025, 11) m
     = new_datetime ((24310 - m) div 12) ((24310 - m) mod 12 + 1)"
proof -
  consider (big) "11 < m" | (small) "m < - 11" | (mid) "- 11 \<le> m" "m \<le> 11" by linarith
  then show ?thesis
  proof cases
    case big
    define d where "d = m div 12"
    define md where "md = m mod 12"
    have m: "m = 12 * d + md" "0 \<le> md" "md < 12" by (simp_all add: d_def md_def)
    have rd: "relativedelta_months m = (d, md)"
      using big by (simp add: relativedelta_months_def d_def md_def)
    have i: "24310 - m = 12 * (2025 - d) + (10 - md)" using m by simp
    show ?thesis
    proof (cases "md = 11")
      case True
      have "24310 - m = 12 * (2024 - d) + 11" using i True by simp
      then have "(24310 - m) div 12 = 2024 - d" "(24310 - m) mod 12 = 11"
        by (rule divmod12, simp, simp)+
      then show ?thesis using True by (simp add: datetime_minus_months_def rd Let_def)
    next
      case False
      then have r: "0 \<le> 10 - md" "10 - md < 12" using m by simp_all
      have "(24310 - m) div 12 = 2025 - d" "(24310 - m) mod 12 = 10 - md"
        using i r by (rule divmod12)+
      then show ?thesis using False m(2,3) by (simp add: datetime_minus_months_def rd Let_def)
    qed
  next
    case small
    define d where "d = (- m) div 12"
    define md where "md = (- m) mod 12"
    have m: "- m = 12 * d + md" "0 \<le> md" "md < 12" by (simp_all add: d_def md_def)
    have rd: "relativedelta_months m = (- d, - md)"
      using small by (simp add: relativedelta_months_def d_def md_def)
    have i: "24310 - m = 12 * (2025 + d) + (10 + md)" using m by simp
    show ?thesis
    proof (cases "md \<le> 1")
      case True
      then have r: "0 \<le> 10 + md" "10 + md < 12" using m by simp_all
      have "(24310 - m) div 12 = 2025 + d" "(24310 - m) mod 12 = 10 + md"
        using i r by (rule divmod12)+
      then show ?thesis using True m(2,3) by (auto simp: datetime_minus_months_def rd Let_def)
    next
      case False
      then have "24310 - m = 12 * (2026 + d) + (md - 2)" "0 \<le> md - 2" "md - 2 < 12"
        using i m by simp_all
      then have "(24310 - m) div 12 = 2026 + d" "(24310 - m) mod 12 = md - 2"
        by (rule divmod12)+
      then show ?thesis using False m(2,3) by (simp add: datetime_minus_months_def rd Let_def)
    qed
  next
    case mid
    then have "\<not> 11 < \<bar>m\<bar>" by linarith
    then have rd: "relativedelta_months m = (0, m)"
      by (simp add: relativedelta_months_def)
    show ?thesis
    proof (cases "m < - 1")
      case True
      then have "24310 - m = 12 * 2026 + (- m - 2)" "0 \<le> - m - 2" "- m - 2 < 12"
        using mid by simp_all
      then have "(24310 - m) div 12 = 2026" "(24310 - m) mod 12 = - m - 2"
        by (rule divmod12)+
      then show ?thesis using True mid by (simp add: datetime_minus_months_def rd Let_def)
    next
      case False
      show ?thesis
      proof (cases "m = 11")
        case True
        then show ?thesis
          by (simp add: datetime_minus_months_def relativedelta_months_def Let_def)
      next
        case ne: False
        then have "24310 - m = 12 * 2025 + (10 - m)" "0 \<le> 10 - m" "10 - m < 12"
          using mid False by simp_all
        then have "(24310 - m) div 12 = 2025" "(24310 - m) mod 12 = 10 - m"
          by (rule divmod12)+
        then show ?thesis
          using False ne mid by (auto simp: datetime_minus_months_def rd Let_def)
      qed
    qed
  qed
qed

lemma first_payment_in_range:
  "(1 \<le> (24311 - p) div 12 \<and> (24311 - p) div 12 \<le> 9999)
     = (- 95688 \<le> p \<and> p \<le> (24299 :: int))"
  by presburger

lemma month_of_index: "1 \<le> (i :: int) mod 12 + 1 \<and> i mod 12 + 1 \<le> 12"
  by simp

lemma horizon_closed_form:
  "calculate_total_payments_until_sale p sy sm =
     (case new_datetime ((24311 - p) div 12) ((24311 - p) mod 12 + 1) of
        Inl e \<Rightarrow> Inl e
      | Inr first_payment_date \<Rightarrow>
          (case new_datetime sy sm of
             Inl e \<Rightarrow> Inl e
           | Inr sale_date \<Rightarrow>
               (if 12 * sy + sm + p - 24311 < p
                then Inl (ValueError_horizon (12 * sy + sm + p - 24311))
                else Inr (12 * sy + sm + p - 24311, strftime_b_Y first_payment_date))))"
proof -
  have cur: "new_datetime CURRENT_YEAR CURRENT_MONTH = Inr (2025, 11)"
    by (simp add: new_datetime_def c_int_ok_def CURRENT_YEAR_def CURRENT_MONTH_def)
  have i: "24310 - (p - 1) = 24311 - p" by simp
  have fp: "datetime_minus_months (2025, 11) (p - 1)
              = new_datetime ((24311 - p) div 12) ((24311 - p) mod 12 + 1)"
    by (simp only: first_payment_month i)
  have cnt: "12 * (sy - (24311 - p) div 12) + (sm - ((24311 - p) mod 12 + 1)) + 1
               = 12 * sy + sm + p - 24311"
  proof -
    define q where "q = (24311 - p) div 12"
    define r where "r = (24311 - p) mod 12"
    have "12 * q + r = 24311 - p" by (simp add: q_def r_def)
    then have "12 * (sy - q) + (sm - (r + 1)) + 1 = 12 * sy + sm + p - 24311"
      by (simp add: algebra_simps)
    then show ?thesis by (simp only: q_def r_def)
  qed
  show ?thesis
  proof (cases "new_datetime ((24311 - p) div 12) ((24311 - p) mod 12 + 1)")
    case (Inl e)
    then show ?thesis by (simp add: calculate_total_payments_until_sale_def cur fp)
  next
    case (Inr fd)
    then have fd: "fd = ((24311 - p) div 12, (24311 - p) mod 12 + 1)"
      by (auto simp: new_datetime_def split: if_splits)
    show ?thesis
    proof (cases "new_datetime sy sm")
      case (Inl e)
      then show ?thesis using Inr by (simp add: calculate_total_payments_until_sale_def cur fp)
    next
      case sd: (Inr sd)
      then have sdv: "sd = (sy, sm)" by (auto simp: new_datetime_def split: if_splits)
      have "calculate_total_payments_until_sale p sy sm =
          (let total_months = 12 * (fst sd - fst fd) + (snd sd - snd fd) + 1
           in if total_months < p then Inl (ValueError_horizon total_months)
              else Inr (total_months, strftime_b_Y fd))"
        by (simp only: calculate_total_payments_until_sale_def cur fp Inr sd sum.case)
      also have "\<dots> = (if 12 * sy + sm + p - 24311 < p
                then Inl (ValueError_horizon (12 * sy + sm + p - 24311))
                else Inr (12 * sy + sm + p - 24311, strftime_b_Y fd))"
        by (simp only: fd sdv fst_conv snd_conv cnt Let_def)
      finally show ?thesis by (simp only: Inr sd sum.case)
    qed
  qed
qed

lemma new_datetime_ok:
  "(new_datetime y m = Inr (y, m)) = (1 \<le> y \<and> y \<le> 9999 \<and> 1 \<le> m \<and> m \<le> 12)"
  by (auto simp: new_datetime_def c_int_ok_def)

lemma new_datetime_cases:
  "new_datetime y m = Inr (y, m) \<or> new_datetime y m = Inl OverflowError
     \<or> new_datetime y m = Inl ValueError_date"
  by (simp add: new_datetime_def)

lemma month_count_identity:
  "12 * (sy - (24311 - p) div 12) + (sm - ((24311 - p) mod 12 + 1)) + 1
     = 12 * sy + sm + p - (24311 :: int)"
proof -
  define q where "q = (24311 - p) div 12"
  define r where "r = (24311 - p) mod 12"
  have "12 * q + r = 24311 - p" by (simp add: q_def r_def)
  then have "12 * (sy - q) + (sm - (r + 1)) + 1 = 12 * sy + sm + p - 24311"
    by (simp add: algebra_simps)
  then show ?thesis by (simp only: q_def r_def)
qed

lemma parse_tiny_rate: "round_double (1 / 10 ^ 14) = Some (6338253001141147 / 2 ^ 99)"
  by (simp add: round_double_def binade_def binade_down.simps round_half_even_def Let_def)

lemma tiny_rate_per_cent:
  "round_double (6338253001141147 / 2 ^ 99 / 100) = Some (2028240960365167 / 2 ^ 104)"
  by (simp add: round_double_def binade_def binade_down.simps round_half_even_def Let_def)

lemma tiny_rate_per_month:
  "round_double (2028240960365167 / 2 ^ 104 / 12) = Some (5408642560973779 / 2 ^ 109)"
  by (simp add: round_double_def binade_def binade_down.simps round_half_even_def Let_def)

lemma one_plus_tiny_rate:
  "round_double (1 + 5408642560973779 / 2 ^ 109) = Some 1"
  by (simp add: round_double_def binade_def binade_up.simps round_half_even_def Let_def)

lemma round_double_one: "round_double 1 = Some 1"
  by (simp add: round_double_def binade_def binade_up.simps round_half_even_def Let_def)

subsection \<open>Gain and loss labels\<close>

text \<open>
  Claim C9. The label printed after a savings figure is LOSS exactly when the figure
  is strictly below \<open>-0.01\<close>, and GAIN exactly when it is at least \<open>-0.01\<close>: every
  non-negative figure and every negative one of absolute value at most \<open>0.01\<close> is
  labelled GAIN.
\<close>

theorem status_label_loss_iff:
  "(status_label s = '' (LOSS)'') = (s < - 0.01)
   \<and> (status_label s = '' (GAIN)'') = (- 0.01 \<le> s)"
  by (auto simp: status_label_def)

subsection \<open>The sale horizon\<close>

text \<open>
  Claim C6. With four payments made and a sale in July 2035, the horizon is 120 months
  and the first payment is labelled \<open>Aug 2025\<close>.
\<close>

theorem default_sale_horizon:
  "calculate_total_payments_until_sale 4 2035 7 = Inr (120, ''Aug 2025'')"
  by (simp add: calculate_total_payments_until_sale_def new_datetime_def c_int_ok_def
      CURRENT_YEAR_def CURRENT_MONTH_def datetime_minus_months_def relativedelta_months_def
      strftime_b_Y_def month_abbr_def year4_def digit_char_def Let_def)

subsection \<open>The fixed payment\<close>

text \<open>
  In exact arithmetic the payment is defined for every principal and every term of at
  least one month: for a rate that is zero or negative it is the principal divided by
  the term, and for a positive rate the divisor \<open>(1 + r) ^ months - 1\<close> is not zero,
  because \<open>1 + r > 1\<close>.
\<close>

lemma calculate_pmt_exact_from_one_month:
  assumes "1 \<le> months"
  shows "(annual_rate \<le> 0 \<longrightarrow>
            calculate_pmt p annual_rate months = Inr (p / real_of_int months))
       \<and> (0 < annual_rate \<longrightarrow>
            power_int (1 + annual_rate / 100 / 12) months - 1 \<noteq> 0
          \<and> calculate_pmt p annual_rate months =
              Inr (p * (annual_rate / 100 / 12 * power_int (1 + annual_rate / 100 / 12) months)
                     / (power_int (1 + annual_rate / 100 / 12) months - 1)))
       \<and> calculate_pmt p 0 months = Inr (p / real_of_int months)
       \<and> (\<exists>x. calculate_pmt p annual_rate months = Inr x)"
proof -
  have nz: "months \<noteq> 0" using assms by simp
  have a: "annual_rate \<le> 0 \<longrightarrow>
            calculate_pmt p annual_rate months = Inr (p / real_of_int months)"
    using nz by (simp add: calculate_pmt_def)
  have b: "0 < annual_rate \<longrightarrow> power_int (1 + annual_rate / 100 / 12) months - 1 \<noteq> 0"
  proof
    assume "0 < annual_rate"
    then have "1 < 1 + annual_rate / 100 / 12" by simp
    then show "power_int (1 + annual_rate / 100 / 12) months - 1 \<noteq> 0"
      using nz by (simp add: powi_one_iff)
  qed
  have c: "0 < annual_rate \<longrightarrow> calculate_pmt p annual_rate months =
              Inr (p * (annual_rate / 100 / 12 * power_int (1 + annual_rate / 100 / 12) months)
                     / (power_int (1 + annual_rate / 100 / 12) months - 1))"
    using calculate_pmt_pos_rate [of annual_rate months p] nz by simp
  have d: "calculate_pmt p 0 months = Inr (p / real_of_int months)"
    using nz by (simp add: calculate_pmt_def)
  have e: "\<exists>x. calculate_pmt p annual_rate months = Inr x"
    using calculate_pmt_total [OF nz] .
  from a b c d e show ?thesis by blast
qed

text \<open>
  Claim C7. The claim, that a positive rate never leads to a division by zero, holds of
  the expression in exact arithmetic (the lemma above) and fails of the program. The
  decimal \<open>1e-14\<close> is read as the double \<open>6338253001141147 / 2 ^ 99\<close>, a positive rate
  that passes the guard \<^verbatim>\<open>annual_rate <= 0\<close>. The monthly rate is then about
  \<open>8.3e-18\<close>, the sum \<open>1 + r\<close> rounds to 1, its power is 1, the divisor is 0 and the
  division raises \<^verbatim>\<open>ZeroDivisionError\<close>.
\<close>

theorem calculate_pmt_double_tiny_rate:
  "round_double (1 / 10 ^ 14) = Some (6338253001141147 / 2 ^ 99)
   \<and> (0 :: real) < 6338253001141147 / 2 ^ 99
   \<and> calculate_pmt_double 100000 (6338253001141147 / 2 ^ 99) 360 = Inl ZeroDivisionError"
proof -
  define a :: real where "a = 6338253001141147 / 2 ^ 99"
  define r100 :: real where "r100 = 2028240960365167 / 2 ^ 104"
  define r :: real where "r = 5408642560973779 / 2 ^ 109"
  have pos: "0 < a" by (simp add: a_def)
  have s1: "round_double (a / 100) = Some r100"
    unfolding a_def r100_def by (rule tiny_rate_per_cent)
  have s2: "round_double (r100 / 12) = Some r"
    unfolding r100_def r_def by (rule tiny_rate_per_month)
  have s3: "round_double (1 + r) = Some 1"
    unfolding r_def by (rule one_plus_tiny_rate)
  have s4: "fpow 1 360 = Inr 1" by (simp add: fpow_def round_double_one)
  have s5: "round_double 0 = Some 0" by (simp add: round_double_def)
  have "calculate_pmt_double 100000 a 360 = Inl ZeroDivisionError"
    using pos by (simp add: calculate_pmt_double_def s1 s2 s3 s4 s5 fdiv_def)
  with pos parse_tiny_rate show ?thesis unfolding a_def by blast
qed



subsection \<open>The search\<close>








subsection \<open>The comparison table\<close>

text \<open>
  Claim C5. For every pair of tipping rates and every original rate, the rates of the
  comparison table are exactly those of the five values (sale rate plus 0.075, sale
  rate, sale rate minus 0.25, lifetime rate, lifetime rate minus 0.25), each rounded to
  three decimals, that lie strictly below the original rate; they are listed in strictly
  descending order without repetition, so there are at most five; and the table has one
  row per listed rate, in that order.
\<close>

theorem comparison_table_rates:
  "set (table_rates t_s t_l orig) =
     {r \<in> {py_round (t_s + 0.075) 3, py_round t_s 3, py_round (t_s - 0.25) 3,
           py_round t_l 3, py_round (t_l - 0.25) 3}. r < orig}
   \<and> sorted_wrt (>) (table_rates t_s t_l orig)
   \<and> distinct (table_rates t_s t_l orig)
   \<and> length (table_rates t_s t_l orig) \<le> 5
   \<and> (\<forall>r\<in>set (table_rates t_s t_l orig). r < orig \<and> (\<exists>k :: int. r = real_of_int k / 1000))
   \<and> (\<exists>rows. table_loop b (table_rates t_s t_l orig) = Inr rows
          \<and> map row_rate rows = table_rates t_s t_l orig)"
proof -
  have s: "sorted_wrt (>) (table_rates t_s t_l orig)"
    by (simp add: table_rates_def Let_def descending_of_sort_key_uminus)
  have d: "distinct (table_rates t_s t_l orig)"
    by (simp add: table_rates_def Let_def)
  have g: "\<forall>r\<in>set (table_rates t_s t_l orig). r < orig \<and> (\<exists>k :: int. r = real_of_int k / 1000)"
  proof
    fix r assume "r \<in> set (table_rates t_s t_l orig)"
    then have "r < orig" "\<exists>x. r = py_round x 3" by (auto simp: set_table_rates)
    then show "r < orig \<and> (\<exists>k :: int. r = real_of_int k / 1000)"
      using py_round_grid [of _ 3] by fastforce
  qed
  from set_table_rates [of t_s t_l orig] s d length_table_rates [of t_s t_l orig] g
    table_loop_eq [of b "table_rates t_s t_l orig"]
  show ?thesis by blast
qed

text \<open>
  Tipping rates 6.5 and 6.25 with an original rate of 6.55: of the five values 6.575 is
  dropped and 6.25 occurs twice.
\<close>

theorem comparison_table_rates_witness:
  "table_rates 6.5 6.25 6.55 = [6.5, 6.25, 6]
   \<and> set (table_rates 6.5 6.25 6.55) = {6.5, 6.25, 6}
   \<and> sorted_wrt (>) [6.5, 6.25, 6 :: real]
   \<and> length (table_rates 6.5 6.25 6.55) \<le> 5
   \<and> (6.5 :: real) < 6.55"
proof -
  note t = comparison_table_rates [of "6.5" "6.25" "6.55" undefined]
  have e: "table_rates 6.5 6.25 6.55 = [6.5, 6.25, 6]" by (rule table_rates_example)
  from t have "sorted_wrt (>) (table_rates 6.5 6.25 6.55)
      \<and> length (table_rates 6.5 6.25 6.55) \<le> 5
      \<and> (\<forall>r\<in>set (table_rates 6.5 6.25 6.55). r < 6.55)"
    by blast
  then have "sorted_wrt (>) [6.5, 6.25, 6 :: real]
      \<and> length [6.5, 6.25, 6 :: real] \<le> 5
      \<and> (\<forall>r\<in>set [6.5, 6.25, 6 :: real]. r < 6.55)"
    unfolding e .
  then show ?thesis unfolding e by simp
qed

subsection \<open>The refinanced loan\<close>

text \<open>
  Claim C4. Whenever the benchmark is computed, the refinanced principal is the balance
  of the original loan after the payments made, times one plus the closing-cost
  percentage. For every candidate rate, both in the search and in the table, the
  refinance payment is \<open>calculate_pmt\<close> of that principal over 360 months and the
  balance at sale is \<open>get_loan_status\<close> of that principal over 360 months, whatever
  the original term; the original term enters only the original loan's own figures.
\<close>

theorem refinance_principal_and_term:
  assumes "make_benchmark a m = Inr b"
  shows "\<exists>bal pm ri.
           get_loan_status (amount a) (rate a) (term a) (paid a) = Inr (bal, pm, ri)
         \<and> cost_refi_loan_amt b = bal * (1 + costs_pct a)
         \<and> (\<forall>r t. \<exists>pmt_refi rem ri'.
               calculate_pmt (bal * (1 + costs_pct a)) r 360 = Inr pmt_refi
             \<and> get_loan_status (bal * (1 + costs_pct a)) r 360 (m - paid a)
                  = Inr (rem, pmt_refi, ri')
             \<and> search_step b r t =
                  Inr \<lparr>tipping_rate_sale =
                         latch (sale_cheaper b pmt_refi rem) r (tipping_rate_sale t),
                       tipping_rate_lifetime =
                         latch (lifetime_cheaper b pmt_refi) r (tipping_rate_lifetime t)\<rparr>
             \<and> table_row b r =
                  Inr \<lparr>row_rate = r,
                       monthly_savings = pm - pmt_refi,
                       savings_at_sale = total_cost_orig_at_sale b
                         - ((pm * real_of_int (paid a)
                             + pmt_refi * real_of_int (m - paid a)) + rem),
                       savings_lifetime =
                         pm * real_of_int (term a - paid a) - pmt_refi * 360\<rparr>)"
proof -
  from assms obtain bal pm ri bal' pm' ri' where
    g1: "get_loan_status (amount a) (rate a) (term a) (paid a) = Inr (bal, pm, ri)" and
    g2: "get_loan_status (amount a) (rate a) (term a) m = Inr (bal', pm', ri')"
    by (auto simp: make_benchmark_def split: sum.splits)
  from assms have b: "b = \<lparr>pmt_orig = pm, closing_costs = bal * costs_pct a,
      cost_refi_loan_amt = bal + bal * costs_pct a,
      refi_payments_until_sale = m - paid a,
      total_cost_orig_at_sale = pm * real_of_int m + bal',
      original_term_months = term a, payments_made = paid a\<rparr>"
    by (simp add: make_benchmark_def g1 g2 Let_def)
  have c: "cost_refi_loan_amt b = bal * (1 + costs_pct a)"
    by (simp add: b algebra_simps)
  have f: "refi_payments_until_sale b = m - paid a" "pmt_orig b = pm"
     "payments_made b = paid a" "original_term_months b = term a" by (simp_all add: b)
  have "\<exists>pmt_refi rem ri'.
               calculate_pmt (cost_refi_loan_amt b) r 360 = Inr pmt_refi
             \<and> get_loan_status (cost_refi_loan_amt b) r 360 (m - paid a)
                  = Inr (rem, pmt_refi, ri')
             \<and> search_step b r t =
                  Inr \<lparr>tipping_rate_sale =
                         latch (sale_cheaper b pmt_refi rem) r (tipping_rate_sale t),
                       tipping_rate_lifetime =
                         latch (lifetime_cheaper b pmt_refi) r (tipping_rate_lifetime t)\<rparr>
             \<and> table_row b r =
                  Inr \<lparr>row_rate = r,
                       monthly_savings = pm - pmt_refi,
                       savings_at_sale = total_cost_orig_at_sale b
                         - ((pm * real_of_int (paid a)
                             + pmt_refi * real_of_int (m - paid a)) + rem),
                       savings_lifetime =
                         pm * real_of_int (term a - paid a) - pmt_refi * 360\<rparr>" for r t
  proof -
    obtain rem pmt_refi ri' where gl:
      "get_loan_status (cost_refi_loan_amt b) r 360 (m - paid a) = Inr (rem, pmt_refi, ri')"
      using get_loan_status_total [of 360 "cost_refi_loan_amt b" r "m - paid a"] by auto
    have pm: "calculate_pmt (cost_refi_loan_amt b) r 360 = Inr pmt_refi"
      using get_loan_status_balance [OF gl] by simp
    have st: "search_step b r t =
                  Inr \<lparr>tipping_rate_sale =
                         latch (sale_cheaper b pmt_refi rem) r (tipping_rate_sale t),
                       tipping_rate_lifetime =
                         latch (lifetime_cheaper b pmt_refi) r (tipping_rate_lifetime t)\<rparr>"
      by (simp add: search_step_def pm gl f latch_def Let_def)
    have tr: "table_row b r =
                  Inr \<lparr>row_rate = r,
                       monthly_savings = pm - pmt_refi,
                       savings_at_sale = total_cost_orig_at_sale b
                         - ((pm * real_of_int (paid a)
                             + pmt_refi * real_of_int (m - paid a)) + rem),
                       savings_lifetime =
                         pm * real_of_int (term a - paid a) - pmt_refi * 360\<rparr>"
      by (simp add: table_row_def pm gl f Let_def)
    from pm gl st tr show ?thesis by blast
  qed
  then show ?thesis using g1 c by (simp only: c) blast
qed

text \<open>
  A loan of 20100 over two months at 12 percent, one payment made, sold in the second
  month, with 2 percent closing costs: the balance is 10100 and the refinanced principal
  10302.
\<close>

theorem refinance_principal_and_term_witness:
  "make_benchmark \<lparr>amount = 20100, rate = 12, term = 2, paid = 1,
                    sell_year = 2025, sell_month = 12, costs_pct = 0.02\<rparr> 2
     = Inr \<lparr>pmt_orig = 10201, closing_costs = 202, cost_refi_loan_amt = 10302,
            refi_payments_until_sale = 1, total_cost_orig_at_sale = 20402,
            original_term_months = 2, payments_made = 1\<rparr>
   \<and> get_loan_status 20100 12 2 1 = Inr (10100, 10201, 101)
   \<and> (10302 :: real) = 10100 * (1 + 0.02)
   \<and> (\<exists>pmt_refi rem ri'.
         calculate_pmt (10100 * (1 + 0.02)) 6 360 = Inr pmt_refi
       \<and> get_loan_status (10100 * (1 + 0.02)) 6 360 1 = Inr (rem, pmt_refi, ri'))"
proof -
  define a where "a = \<lparr>amount = 20100, rate = 12, term = 2, paid = 1,
                    sell_year = 2025, sell_month = 12, costs_pct = 0.02\<rparr>"
  define b where "b = \<lparr>pmt_orig = 10201, closing_costs = 202, cost_refi_loan_amt = 10302,
            refi_payments_until_sale = 1, total_cost_orig_at_sale = 20402,
            original_term_months = 2, payments_made = 1\<rparr>"
  define c :: real where "c = 10100 * (1 + 0.02)"
  have mb: "make_benchmark a 2 = Inr b" unfolding a_def b_def by (rule two_month_benchmark)
  have gl: "get_loan_status (amount a) (rate a) (term a) (paid a) = Inr (10100, 10201, 101)"
    by (simp add: a_def two_month_loan_status)
  obtain bal pm ri where t:
      "get_loan_status (amount a) (rate a) (term a) (paid a) = Inr (bal, pm, ri)"
      "cost_refi_loan_amt b = bal * (1 + costs_pct a)"
      "\<forall>r t. \<exists>pmt_refi rem ri'.
          calculate_pmt (bal * (1 + costs_pct a)) r 360 = Inr pmt_refi
        \<and> get_loan_status (bal * (1 + costs_pct a)) r 360 (2 - paid a)
             = Inr (rem, pmt_refi, ri')"
    using refinance_principal_and_term [OF mb] by blast
  from t(1) gl have bal: "bal = 10100" by simp
  have cc: "bal * (1 + costs_pct a) = c" by (simp add: bal a_def c_def)
  have p: "2 - paid a = 1" by (simp add: a_def)
  from t(2) have x: "(10302 :: real) = c" by (simp add: cc b_def)
  from t(3) have y: "\<exists>pmt_refi rem ri'.
          calculate_pmt c 6 360 = Inr pmt_refi
        \<and> get_loan_status c 6 360 1 = Inr (rem, pmt_refi, ri')"
    unfolding cc p by blast
  have "make_benchmark a 2 = Inr b
      \<and> get_loan_status 20100 12 2 1 = Inr (10100, 10201, 101)
      \<and> (10302 :: real) = c
      \<and> (\<exists>pmt_refi rem ri'.
          calculate_pmt c 6 360 = Inr pmt_refi
        \<and> get_loan_status c 6 360 1 = Inr (rem, pmt_refi, ri'))"
    using mb two_month_loan_status(1) x y by blast
  then show ?thesis unfolding a_def b_def c_def .
qed

subsection \<open>Resolving the sale horizon\<close>

text \<open>
  Claim C2, as the code has it. The first payment falls in the month of index
  \<open>24311 - p\<close> (twelve times the year plus the month, less one), that is November 2025
  stepped back \<open>p - 1\<close> months. When the sale year is in \<open>1..9999\<close>, the sale month
  in \<open>1..12\<close> and the year of the first payment in \<open>1..9999\<close> (\<open>p\<close> between
  \<open>-95688\<close> and \<open>24299\<close>), the function fails with the horizon error exactly when the
  inclusive count of months from the first payment to the sale is below \<open>p\<close>, which is
  exactly when the sale month precedes November 2025, and otherwise returns the count
  and the label of the first payment. Outside that calendar range it fails while
  building a date.
\<close>

theorem sale_horizon_cases:
  "(1 \<le> sy \<and> sy \<le> 9999 \<and> 1 \<le> sm \<and> sm \<le> 12 \<and> - 95688 \<le> p \<and> p \<le> 24299 \<longrightarrow>
      calculate_total_payments_until_sale p sy sm =
        (let first_payment_date = ((24311 - p) div 12, (24311 - p) mod 12 + 1);
             total_months = 12 * (sy - fst first_payment_date)
                            + (sm - snd first_payment_date) + 1
         in if total_months < p then Inl (ValueError_horizon total_months)
            else Inr (total_months, strftime_b_Y first_payment_date))
      \<and> (12 * (sy - (24311 - p) div 12) + (sm - ((24311 - p) mod 12 + 1)) + 1 < p)
          = (12 * sy + sm < 12 * 2025 + 11))
   \<and> (\<not> (1 \<le> sy \<and> sy \<le> 9999 \<and> 1 \<le> sm \<and> sm \<le> 12 \<and> - 95688 \<le> p \<and> p \<le> 24299) \<longrightarrow>
      calculate_total_payments_until_sale p sy sm = Inl OverflowError
      \<or> calculate_total_payments_until_sale p sy sm = Inl ValueError_date)"
proof (intro conjI impI)
  assume r: "1 \<le> sy \<and> sy \<le> 9999 \<and> 1 \<le> sm \<and> sm \<le> 12 \<and> - 95688 \<le> p \<and> p \<le> 24299"
  then have "1 \<le> (24311 - p) div 12 \<and> (24311 - p) div 12 \<le> 9999"
    by (simp only: first_payment_in_range)
  then have f: "new_datetime ((24311 - p) div 12) ((24311 - p) mod 12 + 1)
                  = Inr ((24311 - p) div 12, (24311 - p) mod 12 + 1)"
    using month_of_index [of "24311 - p"] by (simp only: new_datetime_ok)
  have s: "new_datetime sy sm = Inr (sy, sm)" using r by (simp only: new_datetime_ok)
  show "calculate_total_payments_until_sale p sy sm =
        (let first_payment_date = ((24311 - p) div 12, (24311 - p) mod 12 + 1);
             total_months = 12 * (sy - fst first_payment_date)
                            + (sm - snd first_payment_date) + 1
         in if total_months < p then Inl (ValueError_horizon total_months)
            else Inr (total_months, strftime_b_Y first_payment_date))"
    by (simp only: horizon_closed_form f s sum.case Let_def fst_conv snd_conv
        month_count_identity)
  show "(12 * (sy - (24311 - p) div 12) + (sm - ((24311 - p) mod 12 + 1)) + 1 < p)
          = (12 * sy + sm < 12 * 2025 + 11)"
    by (simp only: month_count_identity) linarith
next
  assume n: "\<not> (1 \<le> sy \<and> sy \<le> 9999 \<and> 1 \<le> sm \<and> sm \<le> 12 \<and> - 95688 \<le> p \<and> p \<le> 24299)"
  let ?fy = "(24311 - p) div 12" and ?fm = "(24311 - p) mod 12 + 1"
  show "calculate_total_payments_until_sale p sy sm = Inl OverflowError
      \<or> calculate_total_payments_until_sale p sy sm = Inl ValueError_date"
  proof (cases "new_datetime ?fy ?fm = Inr (?fy, ?fm)")
    case False
    then have "new_datetime ?fy ?fm = Inl OverflowError
             \<or> new_datetime ?fy ?fm = Inl ValueError_date"
      using new_datetime_cases [of ?fy ?fm] by blast
    then show ?thesis by (auto simp: horizon_closed_form)
  next
    case True
    then have "1 \<le> ?fy \<and> ?fy \<le> 9999" by (simp only: new_datetime_ok)
    then have "- 95688 \<le> p \<and> p \<le> 24299" by (simp only: first_payment_in_range)
    with n have "\<not> (1 \<le> sy \<and> sy \<le> 9999 \<and> 1 \<le> sm \<and> sm \<le> 12)" by blast
    then have "new_datetime sy sm \<noteq> Inr (sy, sm)" by (simp only: new_datetime_ok) simp
    then have "new_datetime sy sm = Inl OverflowError
             \<or> new_datetime sy sm = Inl ValueError_date"
      using new_datetime_cases [of sy sm] by blast
    then show ?thesis using True by (auto simp: horizon_closed_form)
  qed
qed

text \<open>
  Four payments made: a sale in October 2025 is refused, a sale in November 2025 or in
  July 2035 is accepted; with 24300 payments made the first payment would fall before
  year 1.
\<close>

theorem sale_horizon_cases_witness:
  "calculate_total_payments_until_sale 4 2025 10 = Inl (ValueError_horizon 3)
   \<and> calculate_total_payments_until_sale 4 2025 11 = Inr (4, ''Aug 2025'')
   \<and> calculate_total_payments_until_sale 4 2035 7 = Inr (120, ''Aug 2025'')
   \<and> (calculate_total_payments_until_sale 24300 2035 7 = Inl OverflowError
      \<or> calculate_total_payments_until_sale 24300 2035 7 = Inl ValueError_date)"
proof -
  have a: "calculate_total_payments_until_sale 4 2025 10 = Inl (ValueError_horizon 3)"
    using sale_horizon_cases [of 2025 10 4]
    by (simp add: Let_def strftime_b_Y_def month_abbr_def year4_def digit_char_def)
  have b: "calculate_total_payments_until_sale 4 2025 11 = Inr (4, ''Aug 2025'')"
    using sale_horizon_cases [of 2025 11 4]
    by (simp add: Let_def strftime_b_Y_def month_abbr_def year4_def digit_char_def)
  have c: "calculate_total_payments_until_sale 4 2035 7 = Inr (120, ''Aug 2025'')"
    using sale_horizon_cases [of 2035 7 4]
    by (simp add: Let_def strftime_b_Y_def month_abbr_def year4_def digit_char_def)
  have d: "calculate_total_payments_until_sale 24300 2035 7 = Inl OverflowError
      \<or> calculate_total_payments_until_sale 24300 2035 7 = Inl ValueError_date"
    using sale_horizon_cases [of 2035 7 24300] by simp
  from a b c d show ?thesis by blast
qed

text \<open>
  Against claim C2 as stated: four payments made and a sale in January of the year
  10000. The month count from August 2025 is not below 4, yet the function fails,
  because the sale date cannot be built.
\<close>

theorem sale_after_year_9999_fails:
  "calculate_total_payments_until_sale 4 10000 1 = Inl ValueError_date
   \<and> \<not> (12 * (10000 - 2025) + (1 - 8) + 1 < (4 :: int))"
  by (simp add: calculate_total_payments_until_sale_def new_datetime_def c_int_ok_def
      CURRENT_YEAR_def CURRENT_MONTH_def datetime_minus_months_def relativedelta_months_def
      Let_def)

end
